theory Spec2Isabelle
  imports Complex_Main "HOL-Library.AList"
begin

section \<open>Numbers\<close>

text \<open>
  A Python number of the payload is an \<open>int\<close> or a \<open>float\<close>. Both are modelled by the
  value they denote: \<open>Fin r\<close> is the number with the real value \<open>r\<close>, and the three
  other constructors are the special values of a float. The program only compares numbers
  with integer literals, and Python compares an \<open>int\<close> and a \<open>float\<close> by their exact
  values, so that no rounding takes part in what follows.
\<close>

datatype pyfloat = Fin real | PInf | NInf | NaN

text \<open>\<open>c <= x\<close>, \<open>x <= c\<close> and \<open>c < x\<close> for an integer literal \<open>c\<close>: every comparison with
  NaN is false.\<close>

definition int_le :: "int \<Rightarrow> pyfloat \<Rightarrow> bool" where
  "int_le c x = (case x of Fin r \<Rightarrow> of_int c \<le> r | PInf \<Rightarrow> True | NInf \<Rightarrow> False | NaN \<Rightarrow> False)"

definition le_int :: "pyfloat \<Rightarrow> int \<Rightarrow> bool" where
  "le_int x c = (case x of Fin r \<Rightarrow> r \<le> of_int c | PInf \<Rightarrow> False | NInf \<Rightarrow> True | NaN \<Rightarrow> False)"

definition int_lt :: "int \<Rightarrow> pyfloat \<Rightarrow> bool" where
  "int_lt c x = (case x of Fin r \<Rightarrow> of_int c < r | PInf \<Rightarrow> True | NInf \<Rightarrow> False | NaN \<Rightarrow> False)"

definition isna :: "pyfloat \<Rightarrow> bool" where
  "isna x = (x = NaN)"

section \<open>The continent classifier\<close>

text \<open>\<open>get_continent(lat, lon)\<close>: the chain of \<open>if\<close>/\<open>elif\<close> of the source, in its order. A
  chained comparison \<open>a <= x <= b\<close> is \<open>a <= x and x <= b\<close>.\<close>

definition get_continent :: "pyfloat \<Rightarrow> pyfloat \<Rightarrow> string" where
  "get_continent lat lon =
     (if int_le (-120) lon \<and> le_int lon (-30) \<and> int_le 30 lat \<and> le_int lat 70 then
        ''North America''
      else if int_le (-20) lon \<and> le_int lon 50 \<and> int_le (-35) lat \<and> le_int lat 37 then
        ''Africa''
      else if int_le (-10) lon \<and> le_int lon 40 \<and> int_le 35 lat \<and> le_int lat 70 then
        ''Europe''
      else if int_le 60 lon \<and> le_int lon 150 \<and> int_le 5 lat \<and> le_int lat 45 then
        ''Asia''
      else if int_le 110 lon \<and> le_int lon 180 \<and> int_le (-50) lat \<and> le_int lat (-10) then
        ''Australia''
      else if int_le (-90) lon \<and> le_int lon (-30) \<and> int_le (-60) lat \<and> le_int lat 15 then
        ''South America''
      else ''Ocean'')"

text \<open>The specification's reading of the classifier: a table of named bounding boxes
  (longitude from, longitude to, latitude from, latitude to), searched in order; the first
  box that holds the point gives the label, and \<open>Ocean\<close> is the default.\<close>

definition boxes :: "(string \<times> int \<times> int \<times> int \<times> int) list" where
  "boxes =
     [(''North America'', -120, -30, 30, 70),
      (''Africa'', -20, 50, -35, 37),
      (''Europe'', -10, 40, 35, 70),
      (''Asia'', 60, 150, 5, 45),
      (''Australia'', 110, 180, -50, -10),
      (''South America'', -90, -30, -60, 15)]"

fun in_box :: "pyfloat \<Rightarrow> pyfloat \<Rightarrow> string \<times> int \<times> int \<times> int \<times> int \<Rightarrow> bool" where
  "in_box lat lon (name, lon_lo, lon_hi, lat_lo, lat_hi) =
     (int_le lon_lo lon \<and> le_int lon lon_hi \<and> int_le lat_lo lat \<and> le_int lat lat_hi)"

definition first_box :: "pyfloat \<Rightarrow> pyfloat \<Rightarrow> string" where
  "first_box lat lon =
     (case find (in_box lat lon) boxes of Some b \<Rightarrow> fst b | None \<Rightarrow> ''Ocean'')"

section \<open>Binning\<close>

text \<open>
  A cell of a table: a number, a string, a timestamp (milliseconds since the epoch), a
  missing value (pandas' NaN, None and NaT), or a float that numpy has computed and whose
  value the model does not follow (the energy and the synthetic coast distance, which are
  rounded and random results).
\<close>

datatype cell = Num pyfloat | Str string | Timestamp int | NA | AFloat

text \<open>
  \<open>pd.cut(x, bins, labels)\<close> with its defaults \<open>right=True\<close> and \<open>include_lowest=False\<close>, on
  one value. pandas looks the value up with \<open>bins.searchsorted(x, side='left')\<close>, the number
  of edges strictly below \<open>x\<close> (the edges are increasing), and the value is missing when it
  is NaN, when no edge is below it and when every edge is below it; otherwise the label is
  \<open>labels[ids - 1]\<close>.
\<close>

definition searchsorted_left :: "int list \<Rightarrow> pyfloat \<Rightarrow> nat" where
  "searchsorted_left bins x = length (takeWhile (\<lambda>b. int_lt b x) bins)"

definition cut :: "pyfloat \<Rightarrow> int list \<Rightarrow> string list \<Rightarrow> cell" where
  "cut x bins labels =
     (let ids = searchsorted_left bins x in
      if isna x \<or> ids = length bins \<or> ids = 0 then NA else Str (labels ! (ids - 1)))"

text \<open>The two calls of \<open>process_data\<close>, on one value of the column.\<close>

definition severity :: "pyfloat \<Rightarrow> cell" where
  "severity m = cut m [0, 3, 5, 7, 10] [''leve'', ''moderado'', ''fuerte'', ''grave'']"

definition depth_category :: "pyfloat \<Rightarrow> cell" where
  "depth_category d =
     cut d [0, 30, 100, 300, 700] [''superficial'', ''intermedio'', ''profundo'', ''manto'']"

section \<open>Region extraction\<close>

text \<open>
  A string is a list of characters, one per code point below 256. \<open>\s\<close> in a pattern for
  \<open>str\<close> matches the characters for which \<open>str.isspace\<close> holds: in this range the code
  points 9 to 13, 28 to 32, 133 and 160.
\<close>

definition is_space :: "char \<Rightarrow> bool" where
  "is_space c = (of_char c \<in> {9, 10, 11, 12, 13, 28, 29, 30, 31, 32, 133, 160 :: nat})"

text \<open>
  \<open>re.search\<close> with the pattern \<open>,\s*([^,]+)$\<close>, as the backtracking matcher runs it. Each
  function matches the rest of the pattern on the rest of the string and returns the text
  of the group. \<open>$\<close> holds at the end of the string and before a newline that ends it.
\<close>

definition at_end :: "string \<Rightarrow> bool" where
  "at_end s = (s = [] \<or> s = [CHR 0x0A])"

text \<open>The second and later characters of \<open>[^,]+\<close>, the longest run first, then \<open>$\<close>.\<close>

fun take_group :: "string \<Rightarrow> string option" where
  "take_group [] = (if at_end [] then Some [] else None)"
| "take_group (c # cs) =
     (case (if c \<noteq> CHR '','' then take_group cs else None) of
        Some g \<Rightarrow> Some (c # g)
      | None \<Rightarrow> if at_end (c # cs) then Some [] else None)"

text \<open>\<open>([^,]+)$\<close>: at least one character that is not a comma.\<close>

definition group :: "string \<Rightarrow> string option" where
  "group s =
     (case s of
        [] \<Rightarrow> None
      | c # cs \<Rightarrow> if c \<noteq> CHR '','' then map_option (Cons c) (take_group cs) else None)"

text \<open>\<open>\s*([^,]+)$\<close>: the longest run of whitespace first, one character less when the rest
  fails.\<close>

fun spaces_group :: "string \<Rightarrow> string option" where
  "spaces_group [] = group []"
| "spaces_group (c # cs) =
     (case (if is_space c then spaces_group cs else None) of
        Some g \<Rightarrow> Some g
      | None \<Rightarrow> group (c # cs))"

definition match_here :: "string \<Rightarrow> string option" where
  "match_here s =
     (case s of [] \<Rightarrow> None | c # cs \<Rightarrow> if c = CHR '','' then spaces_group cs else None)"

text \<open>The search tries every start from the left and stops at the first match.\<close>

fun search :: "string \<Rightarrow> string option" where
  "search [] = match_here []"
| "search (c # cs) = (case match_here (c # cs) of Some g \<Rightarrow> Some g | None \<Rightarrow> search cs)"

text \<open>The specification's words: the substring after the final comma.\<close>

definition after_final_comma :: "string \<Rightarrow> string" where
  "after_final_comma s = rev (takeWhile (\<lambda>c. c \<noteq> CHR '','') (rev s))"

text \<open>
  The region as the specification describes it: missing when the place has no comma, and
  otherwise the last comma-delimited token, which by the specification's example
  (\<open>"Nowhereland"\<close> for \<open>", Nowhereland"\<close>) does not hold the blanks that follow the comma.
\<close>

definition region_claimed :: "string \<Rightarrow> string option" where
  "region_claimed place =
     (if CHR '','' \<in> set place then Some (dropWhile is_space (after_final_comma place))
      else None)"

section \<open>The payload\<close>

text \<open>
  What \<open>response.json()\<close> returns: \<open>None\<close>, a \<open>bool\<close>, a number, a \<open>str\<close>, a \<open>list\<close> or a
  \<open>dict\<close>. A \<open>dict\<close> is the list of its items, whose keys are distinct.
\<close>

datatype json =
  JNull | JBool bool | JNum pyfloat | JStr string | JArr "json list" | JObj "(string \<times> json) list"

datatype key = SKey string | IKey nat

datatype error = KeyError key | IndexError | TypeError

text \<open>
  The outcome of a computation: it returns a value, it raises, or the model does not say.
  \<open>Unmodelled\<close> stands for a table with a column whose values are not of the types of the
  data model (a number where a string is expected, a null, a nested value, a number that
  64 bits may not hold, a time that is not a whole number of milliseconds in the range of
  64-bit nanosecond timestamps): what pandas does with such a column depends on the mix of
  the values and on its version.
\<close>

datatype 'a outcome = Returns 'a | Raises error | Unmodelled

fun and_then :: "'a outcome \<Rightarrow> ('a \<Rightarrow> 'b outcome) \<Rightarrow> 'b outcome" where
  "and_then (Returns x) f = f x"
| "and_then (Raises e) f = Raises e"
| "and_then Unmodelled f = Unmodelled"

fun for_each :: "('a \<Rightarrow> 'b outcome) \<Rightarrow> 'a list \<Rightarrow> 'b list outcome" where
  "for_each f [] = Returns []"
| "for_each f (x # xs) =
     and_then (f x) (\<lambda>y. and_then (for_each f xs) (\<lambda>ys. Returns (y # ys)))"

text \<open>\<open>not x\<close> is false for a truthy \<open>x\<close>.\<close>

fun truthy :: "json \<Rightarrow> bool" where
  "truthy JNull = False"
| "truthy (JBool b) = b"
| "truthy (JNum x) = (x \<noteq> Fin 0)"
| "truthy (JStr s) = (s \<noteq> [])"
| "truthy (JArr xs) = (xs \<noteq> [])"
| "truthy (JObj kvs) = (kvs \<noteq> [])"

text \<open>\<open>x[k]\<close> for a string key or a non-negative index.\<close>

fun getitem :: "json \<Rightarrow> key \<Rightarrow> json outcome" where
  "getitem (JObj kvs) k =
     (case k of
        SKey s \<Rightarrow> (case map_of kvs s of Some v \<Rightarrow> Returns v | None \<Rightarrow> Raises (KeyError k))
      | IKey i \<Rightarrow> Raises (KeyError k))"
| "getitem (JArr xs) k =
     (case k of
        IKey i \<Rightarrow> if i < length xs then Returns (xs ! i) else Raises IndexError
      | SKey s \<Rightarrow> Raises TypeError)"
| "getitem (JStr s) k =
     (case k of
        IKey i \<Rightarrow> if i < length s then Returns (JStr [s ! i]) else Raises IndexError
      | SKey t \<Rightarrow> Raises TypeError)"
| "getitem x k = Raises TypeError"

text \<open>\<open>for feature in x\<close>: a list gives its elements, a string its characters, a dict its
  keys; nothing else can be iterated.\<close>

fun iterate :: "json \<Rightarrow> json list outcome" where
  "iterate (JArr xs) = Returns xs"
| "iterate (JStr s) = Returns (map (\<lambda>c. JStr [c]) s)"
| "iterate (JObj kvs) = Returns (map (\<lambda>kv. JStr (fst kv)) kvs)"
| "iterate x = Raises TypeError"

section \<open>The transformer\<close>

text \<open>The body of the loop of \<open>process_data\<close>: the dict that is appended, its values
  evaluated in the order of the source.\<close>

definition feature_record :: "json \<Rightarrow> (string \<times> json) list outcome" where
  "feature_record feature =
     and_then (getitem feature (SKey ''properties'')) (\<lambda>props.
     and_then (getitem feature (SKey ''geometry'')) (\<lambda>geometry.
     and_then (getitem props (SKey ''time'')) (\<lambda>t.
     and_then (getitem props (SKey ''mag'')) (\<lambda>mag.
     and_then (getitem props (SKey ''place'')) (\<lambda>place.
     and_then (and_then (getitem geometry (SKey ''coordinates'')) (\<lambda>c. getitem c (IKey 2)))
       (\<lambda>depth_km.
     and_then (and_then (getitem geometry (SKey ''coordinates'')) (\<lambda>c. getitem c (IKey 0)))
       (\<lambda>longitude.
     and_then (and_then (getitem geometry (SKey ''coordinates'')) (\<lambda>c. getitem c (IKey 1)))
       (\<lambda>latitude.
     and_then (getitem props (SKey ''type'')) (\<lambda>ty.
     and_then (getitem props (SKey ''status'')) (\<lambda>status.
     Returns
       [(''time'', t), (''magnitude'', mag), (''place'', place), (''depth_km'', depth_km),
        (''longitude'', longitude), (''latitude'', latitude), (''type'', ty),
        (''status'', status)]))))))))))"

text \<open>The loop, with the list \<open>features\<close> it appends to.\<close>

fun collect :: "json list \<Rightarrow> (string \<times> json) list list \<Rightarrow> (string \<times> json) list list outcome"
  where
  "collect [] features = Returns features"
| "collect (feature # rest) features =
     and_then (feature_record feature) (\<lambda>r. collect rest (features @ [r]))"

text \<open>
  A table is the list of its columns, in their order, each with its name. \<open>pd.DataFrame()\<close>
  and \<open>pd.DataFrame([])\<close> are the table with no column and no row.
\<close>

type_synonym series = "cell list"

type_synonym dataframe = "(string \<times> series) list"

text \<open>
  A column of numbers has a numeric dtype when each of them is a float or an \<open>int\<close> of 64
  bits. A finite number of magnitude \<open>2^63\<close> or more may be an \<open>int\<close> that 64 bits do not
  hold: its column has the dtype \<open>object\<close>, where the arithmetic is Python's and raises on
  overflow. Tables with such a column are not modelled.
\<close>

definition fits :: "pyfloat \<Rightarrow> bool" where
  "fits x = (case x of Fin r \<Rightarrow> \<bar>r\<bar> < 2 ^ 63 | _ \<Rightarrow> True)"

fun cell_of :: "json \<Rightarrow> cell outcome" where
  "cell_of (JNum x) = (if fits x then Returns (Num x) else Unmodelled)"
| "cell_of (JStr s) = Returns (Str s)"
| "cell_of x = Unmodelled"

text \<open>\<open>pd.DataFrame(records)\<close> for a list of dicts that have the same keys in the same
  order, as the loop builds them: one column for each key.\<close>

definition DataFrame :: "(string \<times> json) list list \<Rightarrow> dataframe outcome" where
  "DataFrame records =
     (case records of
        [] \<Rightarrow> Returns []
      | r # rs \<Rightarrow>
          for_each
            (\<lambda>k. and_then
               (for_each
                  (\<lambda>rec. case map_of rec k of Some v \<Rightarrow> cell_of v | None \<Rightarrow> Returns NA)
                  records)
               (\<lambda>col. Returns (k, col)))
            (map fst r))"

text \<open>\<open>len(df)\<close>, \<open>df.empty\<close>, \<open>df[name]\<close> and \<open>df[name] = col\<close>.\<close>

definition len :: "dataframe \<Rightarrow> nat" where
  "len df = (case df of [] \<Rightarrow> 0 | c # cs \<Rightarrow> length (snd c))"

definition empty :: "dataframe \<Rightarrow> bool" where
  "empty df = (df = [] \<or> len df = 0)"

definition getcol :: "dataframe \<Rightarrow> string \<Rightarrow> series outcome" where
  "getcol df name =
     (case map_of df name of Some col \<Rightarrow> Returns col | None \<Rightarrow> Raises (KeyError (SKey name)))"

definition setcol :: "dataframe \<Rightarrow> string \<Rightarrow> series \<Rightarrow> dataframe" where
  "setcol df name col = AList.update name col df"

text \<open>\<open>pd.to_datetime(x, unit='ms')\<close> on one value.\<close>

definition to_datetime :: "cell \<Rightarrow> cell outcome" where
  "to_datetime c =
     (case c of
        Num (Fin r) \<Rightarrow>
          if of_int \<lfloor>r\<rfloor> = r \<and> \<bar>\<lfloor>r\<rfloor>\<bar> \<le> 9223372036854 then Returns (Timestamp \<lfloor>r\<rfloor>)
          else Unmodelled
      | _ \<Rightarrow> Unmodelled)"

text \<open>\<open>.str.extract(r',\s*([^,]+)$')\<close> on one value.\<close>

definition str_extract :: "cell \<Rightarrow> cell outcome" where
  "str_extract c =
     (case c of
        Str s \<Rightarrow> Returns (case search s of Some g \<Rightarrow> Str g | None \<Rightarrow> NA)
      | _ \<Rightarrow> Unmodelled)"

definition cut_cell :: "int list \<Rightarrow> string list \<Rightarrow> cell \<Rightarrow> cell outcome" where
  "cut_cell bins labels c = (case c of Num x \<Rightarrow> Returns (cut x bins labels) | _ \<Rightarrow> Unmodelled)"

text \<open>\<open>.dt.hour\<close> of a timestamp, and the lambda applied to it.\<close>

definition hour :: "cell \<Rightarrow> int outcome" where
  "hour c = (case c of Timestamp t \<Rightarrow> Returns ((t div 3600000) mod 24) | _ \<Rightarrow> Unmodelled)"

definition time_of_day :: "int \<Rightarrow> cell" where
  "time_of_day x = Str (if x < 6 \<or> x \<ge> 18 then ''noche'' else ''dia'')"

text \<open>The lambda of \<open>df.apply(..., axis=1)\<close> on one row.\<close>

definition continent_of_row :: "cell \<times> cell \<Rightarrow> cell outcome" where
  "continent_of_row row =
     (case row of
        (Num lat, Num lon) \<Rightarrow> Returns (Str (get_continent lat lon))
      | _ \<Rightarrow> Unmodelled)"

text \<open>
  The arithmetic of lines 70 and 71, \<open>10 ** (1.5 * x + 4.8)\<close> and
  \<open>np.abs(x) * 10 + np.random.normal(50, 20, len(df))\<close>, on one value of a numeric column:
  numpy computes a float and does not raise (an overflow gives an infinity and a warning).
\<close>

definition float_arithmetic :: "cell \<Rightarrow> cell outcome" where
  "float_arithmetic c = (case c of Num x \<Rightarrow> Returns AFloat | _ \<Rightarrow> Unmodelled)"

text \<open>\<open>process_data(raw_data)\<close>.\<close>

definition process_data :: "json \<Rightarrow> dataframe outcome" where
  "process_data raw_data =
     (if \<not> truthy raw_data then Returns []
      else
        and_then (getitem raw_data (SKey ''features'')) (\<lambda>fs.
        and_then (iterate fs) (\<lambda>items.
        and_then (collect items []) (\<lambda>features.
        and_then (DataFrame features) (\<lambda>df.
        and_then (getcol df ''time'') (\<lambda>c.
        and_then (for_each to_datetime c) (\<lambda>time.
        let df = setcol df ''time'' time in
        and_then (getcol df ''place'') (\<lambda>c.
        and_then (for_each str_extract c) (\<lambda>region.
        let df = setcol df ''region'' region in
        and_then (getcol df ''magnitude'') (\<lambda>c.
        and_then
          (for_each (cut_cell [0, 3, 5, 7, 10] [''leve'', ''moderado'', ''fuerte'', ''grave'']) c)
          (\<lambda>severity.
        let df = setcol df ''severity'' severity in
        and_then (getcol df ''depth_km'') (\<lambda>c.
        and_then
          (for_each
             (cut_cell [0, 30, 100, 300, 700]
                [''superficial'', ''intermedio'', ''profundo'', ''manto'']) c)
          (\<lambda>depth_category.
        let df = setcol df ''depth_category'' depth_category in
        and_then (getcol df ''time'') (\<lambda>c.
        and_then (for_each hour c) (\<lambda>hours.
        let df = setcol df ''time_of_day'' (map time_of_day hours) in
        and_then (getcol df ''latitude'') (\<lambda>lats.
        and_then (getcol df ''longitude'') (\<lambda>lons.
        and_then (for_each continent_of_row (zip lats lons)) (\<lambda>continent.
        let df = setcol df ''continent'' continent in
        and_then (getcol df ''magnitude'') (\<lambda>c.
        and_then (for_each float_arithmetic c) (\<lambda>energy_joules.
        let df = setcol df ''energy_joules'' energy_joules in
        and_then (getcol df ''depth_km'') (\<lambda>c.
        and_then (for_each float_arithmetic c) (\<lambda>coast_distance_km.
        let df = setcol df ''coast_distance_km'' coast_distance_km in
        Returns df))))))))))))))))))))))"

section \<open>The writer\<close>

text \<open>
  The exceptions that appear. The first five are subclasses of
  \<open>requests.exceptions.RequestException\<close>; \<open>JSONDecodeError\<close> is the one of
  \<open>requests.exceptions\<close>. The others are not: \<open>ValueError\<close> (which the decoding error of
  the JSON parser itself is, and the error of the parser for an integer of too many
  digits), \<open>RecursionError\<close> and \<open>OSError\<close>.
\<close>

datatype exn =
  ConnectionError | Timeout | TooManyRedirects | HTTPError nat | JSONDecodeError
  | ValueError | RecursionError | OSError

fun is_request_exception :: "exn \<Rightarrow> bool" where
  "is_request_exception ConnectionError = True"
| "is_request_exception Timeout = True"
| "is_request_exception TooManyRedirects = True"
| "is_request_exception (HTTPError status_code) = True"
| "is_request_exception JSONDecodeError = True"
| "is_request_exception ValueError = False"
| "is_request_exception RecursionError = False"
| "is_request_exception OSError = False"

text \<open>A line of the console: a text, or a text followed by the message of an exception.\<close>

datatype line = Print string | PrintError string exn

text \<open>
  A file holds the table that was serialised into it, or the part of a text that a failed
  write has left. What \<open>df.to_csv(path)\<close> comes to depends on the path: it succeeds, or it
  raises before the file is opened (a directory, a missing directory), or it raises after
  (a full disk). Every exception is caught by \<open>except Exception\<close>.
\<close>

datatype content = Csv dataframe | Truncated

datatype write_outcome = Succeeds | FailsUntouched exn | FailsTruncated exn

text \<open>The world the writer acts on: the files, the console, the working directory, and
  what a write to each path comes to.\<close>

record world =
  files :: "(string \<times> content) list"
  console :: "line list"
  cwd :: string
  to_csv :: "string \<Rightarrow> write_outcome"

text \<open>
  \<open>dir / name\<close> of pathlib, as the text of the path, for a directory and a name in the form
  in which pathlib prints paths: an absolute name replaces the directory, an empty name
  leaves it, and the separator is not doubled after the root. \<open>path.absolute()\<close> joins the
  working directory and the path in the same way.
\<close>

definition joinpath :: "string \<Rightarrow> string \<Rightarrow> string" where
  "joinpath dir name =
     (if name = [] then dir
      else if hd name = CHR ''/'' then name
      else if dir \<noteq> [] \<and> last dir = CHR ''/'' then dir @ name
      else dir @ ''/'' @ name)"

text \<open>\<open>save_to_csv(df, filename)\<close>, with the global \<open>DATA_DIR\<close> as a parameter.\<close>

definition save_to_csv :: "string \<Rightarrow> dataframe \<Rightarrow> string \<Rightarrow> world \<Rightarrow> world" where
  "save_to_csv data_dir df filename w =
     (let output_path = joinpath data_dir filename in
      if \<not> empty df then
        (case to_csv w output_path of
           Succeeds \<Rightarrow>
             w\<lparr>files := AList.update output_path (Csv df) (files w),
               console := console w @
                 [Print (''Datos guardados en: '' @ output_path),
                  Print (''Ruta absoluta: '' @ joinpath (cwd w) output_path)]\<rparr>
         | FailsUntouched e \<Rightarrow>
             w\<lparr>console := console w @ [PrintError ''Error al guardar archivo: '' e]\<rparr>
         | FailsTruncated e \<Rightarrow>
             w\<lparr>files := AList.update output_path Truncated (files w),
               console := console w @ [PrintError ''Error al guardar archivo: '' e]\<rparr>)
      else w\<lparr>console := console w @ [Print ''No hay datos para guardar'']\<rparr>)"

section \<open>The fetcher\<close>

text \<open>
  What the request comes to: \<open>requests.get\<close> raises, or it returns a response with a status
  code and a body. What \<open>response.json()\<close> does with the body is part of the outcome: it
  returns the parsed document or it raises (\<open>JSONDecodeError\<close> for a body that is not JSON
  with requests 2.27 and later, a \<open>ValueError\<close> before; \<open>ValueError\<close> and \<open>RecursionError\<close>
  from the parser for documents that it refuses).
\<close>

datatype http_outcome = Raised exn | Response nat "exn + json"

text \<open>The body of the \<open>try\<close>: \<open>raise_for_status\<close> raises for the codes from 400 to 599.\<close>

definition request_json :: "http_outcome \<Rightarrow> exn + json" where
  "request_json out =
     (case out of
        Raised e \<Rightarrow> Inl e
      | Response status_code json_result \<Rightarrow>
          if 400 \<le> status_code \<and> status_code < 600 then Inl (HTTPError status_code)
          else json_result)"

text \<open>\<open>fetch_earthquake_data()\<close>: the result is the returned value (\<open>JNull\<close> is \<open>None\<close>) or the
  exception that leaves the function, and the console.\<close>

definition fetch_earthquake_data :: "http_outcome \<Rightarrow> line list \<Rightarrow> (exn + json) \<times> line list" where
  "fetch_earthquake_data out con =
     (case request_json out of
        Inr j \<Rightarrow> (Inr j, con)
      | Inl e \<Rightarrow>
          if is_request_exception e then
            (Inr JNull, con @ [PrintError ''Error al obtener datos: '' e])
          else (Inl e, con))"

section \<open>The inputs the claims speak of\<close>

text \<open>The value under a key of a dict; nothing for a missing key and for a value that is
  not a dict.\<close>

fun lookup :: "json \<Rightarrow> string \<Rightarrow> json option" where
  "lookup (JObj kvs) k = map_of kvs k"
| "lookup x k = None"

text \<open>
  A feature lacks a required key when it has no \<open>properties\<close> or no \<open>geometry\<close>, when its
  properties lack one of \<open>time\<close>, \<open>mag\<close>, \<open>place\<close>, \<open>type\<close> and \<open>status\<close>, when its geometry has
  no \<open>coordinates\<close>, and when the coordinates are an array of fewer than three elements.
\<close>

definition lacks_required :: "json \<Rightarrow> bool" where
  "lacks_required feature =
     ((case lookup feature ''properties'' of
         None \<Rightarrow> True
       | Some props \<Rightarrow>
           \<not> list_all (\<lambda>k. lookup props k \<noteq> None)
               [''time'', ''mag'', ''place'', ''type'', ''status''])
      \<or> (case lookup feature ''geometry'' of
            None \<Rightarrow> True
          | Some geometry \<Rightarrow>
              (case lookup geometry ''coordinates'' of
                 None \<Rightarrow> True
               | Some (JArr xs) \<Rightarrow> length xs < 3
               | Some c \<Rightarrow> False)))"

text \<open>
  A feature of the data model: the time is a whole number of milliseconds (in the range of
  the timestamps of 64-bit nanoseconds), the magnitude a number (a float or an integer of
  64 bits), the place, the type and the status strings, and the coordinates an array that
  starts with three such numbers.
\<close>

definition is_number :: "json option \<Rightarrow> bool" where
  "is_number v = (case v of Some (JNum x) \<Rightarrow> fits x | _ \<Rightarrow> False)"

definition is_string :: "json option \<Rightarrow> bool" where
  "is_string v = (case v of Some (JStr s) \<Rightarrow> True | _ \<Rightarrow> False)"

definition is_epoch_ms :: "json option \<Rightarrow> bool" where
  "is_epoch_ms v =
     (case v of
        Some (JNum (Fin r)) \<Rightarrow> of_int \<lfloor>r\<rfloor> = r \<and> \<bar>\<lfloor>r\<rfloor>\<bar> \<le> 9223372036854
      | _ \<Rightarrow> False)"

definition well_formed :: "json \<Rightarrow> bool" where
  "well_formed feature =
     (case lookup feature ''properties'' of
        None \<Rightarrow> False
      | Some props \<Rightarrow>
          is_epoch_ms (lookup props ''time'') \<and> is_number (lookup props ''mag'')
          \<and> is_string (lookup props ''place'') \<and> is_string (lookup props ''type'')
          \<and> is_string (lookup props ''status'')
          \<and> (case lookup feature ''geometry'' of
                None \<Rightarrow> False
              | Some geometry \<Rightarrow>
                  (case lookup geometry ''coordinates'' of
                     Some (JArr xs) \<Rightarrow>
                       3 \<le> length xs \<and> is_number (Some (xs ! 0)) \<and> is_number (Some (xs ! 1))
                       \<and> is_number (Some (xs ! 2))
                   | _ \<Rightarrow> False)))"

text \<open>The feature of the end-to-end example, with any type and status.\<close>

definition example_feature :: "string \<Rightarrow> string \<Rightarrow> json" where
  "example_feature ty st =
     JObj
       [(''properties'',
         JObj
           [(''mag'', JNum (Fin 6)), (''place'', JStr ''10km SE of Testville, Nowhereland''),
            (''time'', JNum (Fin 0)), (''type'', JStr ty), (''status'', JStr st)]),
        (''geometry'',
         JObj [(''coordinates'', JArr [JNum (Fin (- 100)), JNum (Fin 40), JNum (Fin 15)])])]"

text \<open>A record of the data model, as the loop appends it for such a feature.\<close>

definition typed_record :: "(string \<times> json) list \<Rightarrow> bool" where
  "typed_record r =
     (map fst r =
        [''time'', ''magnitude'', ''place'', ''depth_km'', ''longitude'', ''latitude'', ''type'',
         ''status'']
      \<and> is_epoch_ms (map_of r ''time'') \<and> is_number (map_of r ''magnitude'')
      \<and> is_string (map_of r ''place'') \<and> is_number (map_of r ''depth_km'')
      \<and> is_number (map_of r ''longitude'') \<and> is_number (map_of r ''latitude'')
      \<and> is_string (map_of r ''type'') \<and> is_string (map_of r ''status''))"

text \<open>The cell that a value of a record of the data model becomes in its column.\<close>

definition column_cell :: "string \<Rightarrow> (string \<times> json) list \<Rightarrow> cell" where
  "column_cell k r =
     (case map_of r k of Some (JNum x) \<Rightarrow> Num x | Some (JStr s) \<Rightarrow> Str s | _ \<Rightarrow> NA)"

text \<open>A feature without a status.\<close>

definition feature_without_status :: json where
  "feature_without_status =
     JObj
       [(''properties'',
         JObj
           [(''mag'', JNum (Fin 4)), (''place'', JStr ''Fiji region''), (''time'', JNum (Fin 0)),
            (''type'', JStr ''earthquake'')]),
        (''geometry'',
         JObj [(''coordinates'', JArr [JNum (Fin 178), JNum (Fin (- 18)), JNum (Fin 600)])])]"

section \<open>Properties of the classifier\<close>

lemma get_continent_first_box: "get_continent lat lon = first_box lat lon"
  unfolding get_continent_def first_box_def boxes_def
  by (simp only: find.simps in_box.simps option.case fst_conv
        if_distrib [where f = "case_option ''Ocean'' fst"])

lemma box_names: "b \<in> set boxes \<Longrightarrow> fst b \<noteq> ''Ocean''"
  by (auto simp: boxes_def)

text \<open>
  C1. The classifier is a function of the latitude and the longitude that is defined for
  every pair of floats, the special values included. Its result is one of the seven labels.
  The boxes are tried in the order North America, Africa, Europe, Asia, Australia, South
  America: the label is that of the first box of the table that holds the point, whatever
  later boxes hold it too, and it is \<open>Ocean\<close> exactly when no box holds the point. The
  concrete cases of the claim are evaluated in the witness.
\<close>

theorem get_continent_ordered_boxes:
  "get_continent lat lon \<in>
     {''North America'', ''Africa'', ''Europe'', ''Asia'', ''Australia'', ''South America'',
      ''Ocean''}
   \<and> (\<forall>i<length boxes.
         in_box lat lon (boxes ! i) \<and> (\<forall>j<i. \<not> in_box lat lon (boxes ! j)) \<longrightarrow>
         get_continent lat lon = fst (boxes ! i))
   \<and> (get_continent lat lon = ''Ocean'' \<longleftrightarrow> (\<forall>b\<in>set boxes. \<not> in_box lat lon b))"
proof (intro conjI allI impI)
  show "get_continent lat lon \<in>
     {''North America'', ''Africa'', ''Europe'', ''Asia'', ''Australia'', ''South America'',
      ''Ocean''}"
    by (simp add: get_continent_def)
next
  fix i
  assume "i < length boxes"
    and "in_box lat lon (boxes ! i) \<and> (\<forall>j<i. \<not> in_box lat lon (boxes ! j))"
  then have "find (in_box lat lon) boxes = Some (boxes ! i)"
    unfolding find_Some_iff by blast
  then show "get_continent lat lon = fst (boxes ! i)"
    by (simp add: get_continent_first_box first_box_def)
next
  show "get_continent lat lon = ''Ocean'' \<longleftrightarrow> (\<forall>b\<in>set boxes. \<not> in_box lat lon b)"
  proof (cases "find (in_box lat lon) boxes")
    case None
    then have "\<forall>b\<in>set boxes. \<not> in_box lat lon b"
      unfolding find_None_iff by blast
    moreover from None have "get_continent lat lon = ''Ocean''"
      by (simp add: get_continent_first_box first_box_def)
    ultimately show ?thesis by blast
  next
    case (Some b)
    then have b: "b \<in> set boxes \<and> in_box lat lon b"
      unfolding find_Some_iff by (metis nth_mem)
    moreover from Some have "get_continent lat lon = fst b"
      by (simp add: get_continent_first_box first_box_def)
    ultimately show ?thesis
      using box_names [of b] by metis
  qed
qed

text \<open>
  The point with latitude 36 and longitude 0 lies in the box of Africa (the second) and in
  that of Europe (the third), not in the first, and is classified as Africa; latitude 40
  and longitude -100 give North America; latitude -80 and longitude 0 give Ocean.
\<close>

theorem get_continent_ordered_boxes_witness:
  "in_box (Fin 36) (Fin 0) (boxes ! 1) \<and> in_box (Fin 36) (Fin 0) (boxes ! 2)
   \<and> \<not> in_box (Fin 36) (Fin 0) (boxes ! 0)
   \<and> get_continent (Fin 36) (Fin 0) = ''Africa''
   \<and> get_continent (Fin 40) (Fin (- 100)) = ''North America''
   \<and> get_continent (Fin (- 80)) (Fin 0) = ''Ocean''"
  using get_continent_ordered_boxes [of "Fin 36" "Fin 0"]
    get_continent_ordered_boxes [of "Fin 40" "Fin (- 100)"]
    get_continent_ordered_boxes [of "Fin (- 80)" "Fin 0"]
  by (simp add: boxes_def int_le_def le_int_def get_continent_def)

section \<open>Properties of the binning\<close>








section \<open>Properties of the region extraction\<close>

lemma space_not_comma: "is_space c \<Longrightarrow> c \<noteq> CHR '',''"
  by (auto simp: is_space_def)

lemma take_group_eq: "take_group s = (if CHR '','' \<in> set s then None else Some s)"
  by (induction s) (auto simp: at_end_def)

lemma group_eq: "group s = (if s \<noteq> [] \<and> CHR '','' \<notin> set s then Some s else None)"
  by (cases s) (auto simp: group_def take_group_eq)

lemma spaces_group_eq:
  "spaces_group s =
     (if s = [] \<or> CHR '','' \<in> set s then None
      else if list_all is_space s then Some [last s]
      else Some (dropWhile is_space s))"
proof (induction s)
  case Nil
  show ?case by (simp add: group_eq)
next
  case (Cons c cs)
  show ?case
  proof (cases "is_space c")
    case True
    with Cons space_not_comma [of c] show ?thesis
      by (cases cs) (auto simp: group_eq)
  next
    case False
    then show ?thesis by (auto simp: group_eq)
  qed
qed

lemma after_final_comma_Cons:
  "after_final_comma (c # cs) =
     (if CHR '','' \<in> set cs then after_final_comma cs
      else if c = CHR '','' then cs else c # cs)"
  by (auto simp: after_final_comma_def takeWhile_append takeWhile_eq_all_conv)

text \<open>Only the final comma can start a match: the search comes to matching the text after
  it.\<close>

lemma search_eq:
  "search s = (if CHR '','' \<in> set s then spaces_group (after_final_comma s) else None)"
proof (induction s)
  case Nil
  show ?case by (simp add: match_here_def)
next
  case (Cons c cs)
  show ?case
  proof (cases "c = CHR '',''")
    case True
    show ?thesis
    proof (cases "CHR '','' \<in> set cs")
      case comma: True
      then have "spaces_group cs = None" by (simp add: spaces_group_eq)
      with True comma Cons show ?thesis
        by (simp add: match_here_def after_final_comma_Cons)
    next
      case False
      with True Cons show ?thesis
        by (cases "spaces_group cs") (auto simp: match_here_def after_final_comma_Cons)
    qed
  next
    case False
    with Cons show ?thesis
      by (simp add: match_here_def after_final_comma_Cons)
  qed
qed

text \<open>
  C8, as stated, at two places that have a comma. Nothing follows the final comma of
  \<open>"Fiji,"\<close>: the last token is the empty string, and the region is missing, as for a place
  with no comma. A blank follows the final comma of \<open>"Fiji, "\<close>: the last token is empty
  again (and the substring after the comma is the blank), and the region is the blank.
\<close>

theorem region_differs_from_last_token:
  "region_claimed ''Fiji,'' = Some [] \<and> after_final_comma ''Fiji,'' = []
   \<and> search ''Fiji,'' = None
   \<and> region_claimed ''Fiji, '' = Some [] \<and> search ''Fiji, '' = Some '' ''"
  by (simp add: region_claimed_def after_final_comma_def match_here_def group_def is_space_def
        at_end_def)

text \<open>
  C8, amended. For every place, the region is missing when the place has no comma and when
  nothing follows its final comma; otherwise it is the substring after the final comma
  without its leading whitespace (the last token), and when that substring is whitespace
  only, its last character.
\<close>

theorem region_after_final_comma:
  "search place =
     (if CHR '','' \<notin> set place then None
      else let t = after_final_comma place in
        if t = [] then None
        else if list_all is_space t then Some [last t]
        else Some (dropWhile is_space t))"
proof -
  have "CHR '','' \<notin> set (after_final_comma place)"
    unfolding after_final_comma_def
    using set_takeWhileD [of "CHR '',''" "\<lambda>c. c \<noteq> CHR '',''" "rev place"] by auto
  then show ?thesis
    by (simp add: search_eq spaces_group_eq Let_def)
qed

theorem region_after_final_comma_witness:
  "search ''10km SE of Testville, Nowhereland'' = Some ''Nowhereland''
   \<and> search ''Fiji region'' = None \<and> search ''a, b, '' = Some '' '' \<and> search ''a,'' = None"
  using region_after_final_comma [of "''10km SE of Testville, Nowhereland''"]
    region_after_final_comma [of "''Fiji region''"]
    region_after_final_comma [of "''a, b, ''"] region_after_final_comma [of "''a,''"]
  by (simp add: after_final_comma_def is_space_def Let_def)

text \<open>Where something other than whitespace follows the final comma, the region is the
  last token of the specification.\<close>

lemma region_is_last_token:
  assumes "CHR '','' \<in> set place" and "\<not> list_all is_space (after_final_comma place)"
  shows "search place = region_claimed place"
proof -
  have "CHR '','' \<notin> set (after_final_comma place)"
    unfolding after_final_comma_def
    using set_takeWhileD [of "CHR '',''" "\<lambda>c. c \<noteq> CHR '',''" "rev place"] by auto
  moreover from assms(2) have "after_final_comma place \<noteq> []" by auto
  ultimately show ?thesis
    using assms by (simp add: search_eq spaces_group_eq region_claimed_def)
qed

section \<open>Properties of the transformer\<close>

lemma and_then_Returns_iff:
  "and_then m f = Returns y \<longleftrightarrow> (\<exists>x. m = Returns x \<and> f x = Returns y)"
  by (cases m) auto

lemma and_then_Unmodelled_iff:
  "and_then m f = Unmodelled \<longleftrightarrow> m = Unmodelled \<or> (\<exists>x. m = Returns x \<and> f x = Unmodelled)"
  by (cases m) auto

lemma getitem_modelled: "getitem x k \<noteq> Unmodelled"
  by (cases x; cases k) (auto split: option.splits)

lemma getitem_SKey_Returns: "getitem x (SKey k) = Returns v \<longleftrightarrow> lookup x k = Some v"
  by (cases x) (auto split: option.splits)

lemma lookup_features:
  assumes "lookup raw_data ''features'' = Some fs"
  shows "truthy raw_data \<and> getitem raw_data (SKey ''features'') = Returns fs"
  using assms by (cases raw_data) auto

subsection \<open>A feature that lacks a key\<close>

lemma feature_record_modelled: "feature_record feature \<noteq> Unmodelled"
  by (simp add: feature_record_def and_then_Unmodelled_iff getitem_modelled)

lemma feature_record_Returns:
  assumes "feature_record feature = Returns r"
  shows "\<not> lacks_required feature"
proof -
  from assms obtain props geometry c d where
    "lookup feature ''properties'' = Some props" "lookup feature ''geometry'' = Some geometry"
    "lookup props ''time'' \<noteq> None" "lookup props ''mag'' \<noteq> None" "lookup props ''place'' \<noteq> None"
    "lookup props ''type'' \<noteq> None" "lookup props ''status'' \<noteq> None"
    "lookup geometry ''coordinates'' = Some c" "getitem c (IKey 2) = Returns d"
    unfolding feature_record_def and_then_Returns_iff getitem_SKey_Returns
    by force
  then show ?thesis
    by (cases c) (auto simp: lacks_required_def)
qed

lemma lacking_feature_raises:
  "lacks_required feature \<Longrightarrow> \<exists>e. feature_record feature = Raises e"
  using feature_record_Returns [of feature] feature_record_modelled [of feature]
  by (cases "feature_record feature") auto

text \<open>The loop stops at the first feature that raises, and one that raises is enough.\<close>

lemma collect_raises:
  "feature \<in> set items \<Longrightarrow> feature_record feature = Raises e \<Longrightarrow>
   \<exists>e'. collect items features = Raises e'"
proof (induction items arbitrary: features)
  case Nil
  then show ?case by simp
next
  case (Cons x xs)
  show ?case
  proof (cases "feature_record x")
    case (Returns r)
    with Cons.prems have "feature \<in> set xs" by auto
    from Cons.IH [OF this Cons.prems(2)] Returns show ?thesis by simp
  next
    case (Raises e')
    then show ?thesis by simp
  next
    case Unmodelled
    then show ?thesis using feature_record_modelled [of x] by simp
  qed
qed

text \<open>
  C6. When the features of a collection are a list and one of them lacks a required key
  (no properties, no geometry, a property among time, mag, place, type and status missing,
  no coordinates, or fewer than three coordinates), \<open>process_data\<close> raises: it returns no
  table, whatever the other features are.
\<close>

theorem malformed_feature_aborts:
  assumes "lookup raw_data ''features'' = Some (JArr features)"
    and "feature \<in> set features" and "lacks_required feature"
  shows "\<exists>e. process_data raw_data = Raises e"
proof -
  from assms(3) obtain e where "feature_record feature = Raises e"
    using lacking_feature_raises by blast
  with assms(2) obtain e' where "collect features [] = Raises e'"
    using collect_raises by blast
  with lookup_features [OF assms(1)] show ?thesis
    by (simp add: process_data_def)
qed

text \<open>A collection of two features, the second without a status: the KeyError of the
  second is the outcome, and the first gives no row.\<close>

theorem malformed_feature_aborts_witness:
  "lacks_required feature_without_status
   \<and> process_data
       (JObj
          [(''features'',
            JArr [example_feature ''earthquake'' ''reviewed'', feature_without_status])]) =
     Raises (KeyError (SKey ''status''))"
  using malformed_feature_aborts
    [of "JObj
          [(''features'',
            JArr [example_feature ''earthquake'' ''reviewed'', feature_without_status])]"
      "[example_feature ''earthquake'' ''reviewed'', feature_without_status]"
      feature_without_status]
  by (simp add: lacks_required_def process_data_def feature_record_def example_feature_def
        feature_without_status_def)

subsection \<open>The example\<close>

lemma example_record:
  "feature_record (example_feature ty st) =
     Returns
       [(''time'', JNum (Fin 0)), (''magnitude'', JNum (Fin 6)),
        (''place'', JStr ''10km SE of Testville, Nowhereland''), (''depth_km'', JNum (Fin 15)),
        (''longitude'', JNum (Fin (- 100))), (''latitude'', JNum (Fin 40)), (''type'', JStr ty),
        (''status'', JStr st)]"
  by (simp add: feature_record_def example_feature_def)

lemma example_region: "search ''10km SE of Testville, Nowhereland'' = Some ''Nowhereland''"
  by (simp add: match_here_def group_def is_space_def at_end_def)

lemma example_table:
  "process_data (JObj [(''features'', JArr [example_feature ty st])]) =
     Returns
       [(''time'', [Timestamp 0]), (''magnitude'', [Num (Fin 6)]),
        (''place'', [Str ''10km SE of Testville, Nowhereland'']),
        (''depth_km'', [Num (Fin 15)]), (''longitude'', [Num (Fin (- 100))]),
        (''latitude'', [Num (Fin 40)]), (''type'', [Str ty]), (''status'', [Str st]),
        (''region'', [Str ''Nowhereland'']), (''severity'', [Str ''fuerte'']),
        (''depth_category'', [Str ''superficial'']), (''time_of_day'', [Str ''noche'']),
        (''continent'', [Str ''North America'']), (''energy_joules'', [AFloat]),
        (''coast_distance_km'', [AFloat])]"
  by (simp add: process_data_def example_record DataFrame_def getcol_def setcol_def fits_def
        to_datetime_def str_extract_def cut_cell_def hour_def time_of_day_def
        continent_of_row_def float_arithmetic_def example_region cut_def searchsorted_left_def
        int_lt_def isna_def get_continent_def int_le_def le_int_def
      del: search.simps)

text \<open>
  C9. For the collection of the one feature with the magnitude 6.0, the place
  \<open>"10km SE of Testville, Nowhereland"\<close>, the coordinates \<open>[-100, 40, 15]\<close> and the time 0
  (and any type and status), \<open>process_data\<close> returns a table of one row, whose severity is
  \<open>fuerte\<close>, depth category \<open>superficial\<close>, region \<open>Nowhereland\<close> and continent
  \<open>North America\<close>.
\<close>

theorem end_to_end_example:
  "\<exists>df. process_data (JObj [(''features'', JArr [example_feature ty st])]) = Returns df
     \<and> len df = 1
     \<and> getcol df ''severity'' = Returns [Str ''fuerte'']
     \<and> getcol df ''depth_category'' = Returns [Str ''superficial'']
     \<and> getcol df ''region'' = Returns [Str ''Nowhereland'']
     \<and> getcol df ''continent'' = Returns [Str ''North America'']"
  by (simp add: example_table len_def getcol_def)

theorem end_to_end_example_witness:
  "\<exists>df. process_data
           (JObj [(''features'', JArr [example_feature ''earthquake'' ''reviewed''])]) =
         Returns df
     \<and> len df = 1
     \<and> getcol df ''severity'' = Returns [Str ''fuerte'']
     \<and> getcol df ''depth_category'' = Returns [Str ''superficial'']
     \<and> getcol df ''region'' = Returns [Str ''Nowhereland'']
     \<and> getcol df ''continent'' = Returns [Str ''North America'']"
  using end_to_end_example [of "''earthquake''" "''reviewed''"] .

subsection \<open>The number of rows\<close>

lemma well_formed_record:
  assumes "well_formed feature"
  shows "\<exists>r. feature_record feature = Returns r \<and> typed_record r"
proof -
  from assms obtain props geometry xs t m p ty st where
    l: "lookup feature ''properties'' = Some props" "lookup feature ''geometry'' = Some geometry"
      "lookup geometry ''coordinates'' = Some (JArr xs)"
      "lookup props ''time'' = Some t" "lookup props ''mag'' = Some m"
      "lookup props ''place'' = Some p" "lookup props ''type'' = Some ty"
      "lookup props ''status'' = Some st"
    and ty: "is_epoch_ms (Some t)" "is_number (Some m)" "is_string (Some p)" "is_string (Some ty)"
      "is_string (Some st)" "3 \<le> length xs" "is_number (Some (xs ! 0))"
      "is_number (Some (xs ! 1))" "is_number (Some (xs ! 2))"
    by (auto simp: well_formed_def is_epoch_ms_def is_number_def is_string_def
        split: option.splits json.splits pyfloat.splits)
  from l have "feature_record feature =
     Returns
       [(''time'', t), (''magnitude'', m), (''place'', p), (''depth_km'', xs ! 2),
        (''longitude'', xs ! 0), (''latitude'', xs ! 1), (''type'', ty),
        (''status'', st)]"
    using ty(6) by (auto simp add: feature_record_def getitem_SKey_Returns [THEN iffD2])
  with ty show ?thesis by (simp add: typed_record_def)
qed

text \<open>The loop appends one record for each feature.\<close>

lemma collect_well_formed:
  "list_all well_formed items \<Longrightarrow>
   \<exists>rs. collect items features = Returns (features @ rs) \<and> length rs = length items
     \<and> list_all typed_record rs"
proof (induction items arbitrary: features)
  case Nil
  then show ?case by simp
next
  case (Cons x xs)
  from Cons.prems obtain r where r: "feature_record x = Returns r" "typed_record r"
    using well_formed_record [of x] by auto
  from Cons.prems have "list_all well_formed xs" by simp
  from Cons.IH [OF this, of "features @ [r]"]
  obtain rs where "collect xs (features @ [r]) = Returns ((features @ [r]) @ rs)"
    "length rs = length xs" "list_all typed_record rs"
    by blast
  with r show ?case
    by (intro exI [of _ "r # rs"]) simp
qed

lemma for_each_returns:
  "list_all (\<lambda>x. \<exists>y. f x = Returns y) xs \<Longrightarrow>
   for_each f xs = Returns (map (\<lambda>x. case f x of Returns y \<Rightarrow> y) xs)"
  by (induction xs) auto

lemma for_each_map:
  "(\<And>x. x \<in> set xs \<Longrightarrow> f x = Returns (g x)) \<Longrightarrow> for_each f xs = Returns (map g xs)"
  by (induction xs) auto

lemma typed_recordE:
  assumes "typed_record r"
  obtains t m p d lo la ty st where
    "r = [(''time'', JNum (Fin (of_int t))), (''magnitude'', JNum m), (''place'', JStr p),
          (''depth_km'', JNum d), (''longitude'', JNum lo), (''latitude'', JNum la),
          (''type'', JStr ty), (''status'', JStr st)]"
    "\<bar>t\<bar> \<le> 9223372036854" "fits (Fin (of_int t))" "fits m" "fits d" "fits lo" "fits la"
proof -
  from assms obtain v1 v2 v3 v4 v5 v6 v7 v8 where
    r: "r = [(''time'', v1), (''magnitude'', v2), (''place'', v3), (''depth_km'', v4),
          (''longitude'', v5), (''latitude'', v6), (''type'', v7), (''status'', v8)]"
    by (auto simp: typed_record_def map_eq_Cons_conv)
  with assms obtain x m p d lo la ty st where
    v: "v1 = JNum (Fin x)" "of_int \<lfloor>x\<rfloor> = x" "\<bar>\<lfloor>x\<rfloor>\<bar> \<le> 9223372036854" "v2 = JNum m"
      "v3 = JStr p" "v4 = JNum d" "v5 = JNum lo" "v6 = JNum la" "v7 = JStr ty" "v8 = JStr st"
    and f: "fits m" "fits d" "fits lo" "fits la"
    by (auto simp: typed_record_def is_epoch_ms_def is_number_def is_string_def
        split: json.splits pyfloat.splits)
  from v(3) have "\<bar>\<lfloor>x\<rfloor>\<bar> < 2 ^ 63" by simp
  then have "\<bar>real_of_int \<lfloor>x\<rfloor>\<bar> < 2 ^ 63"
    by (metis of_int_abs of_int_less_numeral_power_cancel_iff)
  then have t: "fits (Fin (of_int \<lfloor>x\<rfloor>))" by (simp add: fits_def)
  show ?thesis
  proof (rule that [of "\<lfloor>x\<rfloor>" m p d lo la ty st])
    show "r = [(''time'', JNum (Fin (of_int \<lfloor>x\<rfloor>))), (''magnitude'', JNum m),
          (''place'', JStr p), (''depth_km'', JNum d), (''longitude'', JNum lo),
          (''latitude'', JNum la), (''type'', JStr ty), (''status'', JStr st)]"
      by (simp add: r v)
  qed (fact v(3) t f)+
qed

lemma column_cells:
  assumes "typed_record r"
    and "k \<in> set [''time'', ''magnitude'', ''place'', ''depth_km'', ''longitude'', ''latitude'',
           ''type'', ''status'']"
  shows "(case map_of r k of Some v \<Rightarrow> cell_of v | None \<Rightarrow> Returns NA) = Returns (column_cell k r)"
  using assms(1)
proof (rule typed_recordE)
  fix t m p d lo la ty st
  assume "r = [(''time'', JNum (Fin (of_int t))), (''magnitude'', JNum m), (''place'', JStr p),
          (''depth_km'', JNum d), (''longitude'', JNum lo), (''latitude'', JNum la),
          (''type'', JStr ty), (''status'', JStr st)]"
    and "fits (Fin (of_int t))" "fits m" "fits d" "fits lo" "fits la"
  with assms(2) show ?thesis by (auto simp: column_cell_def)
qed

text \<open>The table of such records: eight columns, one cell for each record in each.\<close>

lemma typed_frame:
  assumes "list_all typed_record rs" and "rs \<noteq> []"
  shows "DataFrame rs =
     Returns
       (map (\<lambda>k. (k, map (column_cell k) rs))
          [''time'', ''magnitude'', ''place'', ''depth_km'', ''longitude'', ''latitude'', ''type'',
           ''status''])"
proof -
  from assms obtain r rs' where rs: "rs = r # rs'" and r: "typed_record r"
    by (cases rs) auto
  from r have keys: "map fst r =
      [''time'', ''magnitude'', ''place'', ''depth_km'', ''longitude'', ''latitude'', ''type'',
       ''status'']"
    by (simp add: typed_record_def)
  have col: "for_each (\<lambda>rec. case map_of rec k of Some v \<Rightarrow> cell_of v | None \<Rightarrow> Returns NA) rs =
      Returns (map (column_cell k) rs)"
    if "k \<in> set [''time'', ''magnitude'', ''place'', ''depth_km'', ''longitude'', ''latitude'',
           ''type'', ''status'']" for k
    using assms(1) that by (intro for_each_map column_cells) (auto simp: list_all_iff)
  have "DataFrame rs =
      for_each
        (\<lambda>k. and_then
           (for_each (\<lambda>rec. case map_of rec k of Some v \<Rightarrow> cell_of v | None \<Rightarrow> Returns NA) rs)
           (\<lambda>col. Returns (k, col)))
        [''time'', ''magnitude'', ''place'', ''depth_km'', ''longitude'', ''latitude'', ''type'',
         ''status'']"
    by (simp add: DataFrame_def rs keys del: for_each.simps)
  also have "\<dots> = Returns
       (map (\<lambda>k. (k, map (column_cell k) rs))
          [''time'', ''magnitude'', ''place'', ''depth_km'', ''longitude'', ''latitude'', ''type'',
           ''status''])"
    by (rule for_each_map) (simp only: col and_then.simps)
  finally show ?thesis .
qed

text \<open>No step of the enrichment fails on a cell of such a record.\<close>

lemma typed_cells:
  assumes "typed_record r"
  shows "\<exists>y. to_datetime (column_cell ''time'' r) = Returns y"
    and "\<exists>y. str_extract (column_cell ''place'' r) = Returns y"
    and "\<exists>y. cut_cell bins labels (column_cell ''magnitude'' r) = Returns y"
    and "\<exists>y. cut_cell bins labels (column_cell ''depth_km'' r) = Returns y"
    and "\<exists>y. hour (case to_datetime (column_cell ''time'' r) of Returns y \<Rightarrow> y) = Returns y"
    and "\<exists>y. continent_of_row (column_cell ''latitude'' r, column_cell ''longitude'' r) = Returns y"
    and "\<exists>y. float_arithmetic (column_cell ''magnitude'' r) = Returns y"
    and "\<exists>y. float_arithmetic (column_cell ''depth_km'' r) = Returns y"
  using assms
  by (auto elim!: typed_recordE
      simp: column_cell_def to_datetime_def str_extract_def cut_cell_def hour_def
        continent_of_row_def float_arithmetic_def)

lemma zip_map_same: "zip (map f xs) (map g xs) = map (\<lambda>x. (f x, g x)) xs"
  by (induction xs) auto

text \<open>
  On a collection with at least one feature, all of the data model, \<open>process_data\<close> returns
  a table with one row for each feature.
\<close>

lemma row_count_of_well_formed:
  assumes features: "lookup raw_data ''features'' = Some (JArr features)"
    and nonempty: "features \<noteq> []" and wf: "list_all well_formed features"
  shows "\<exists>df. process_data raw_data = Returns df \<and> len df = length features"
proof -
  from collect_well_formed [OF wf, of "[]"] obtain rs where
    rs: "collect features [] = Returns rs" "length rs = length features"
      "list_all typed_record rs"
    by auto
  with nonempty have "rs \<noteq> []" by auto
  note frame = typed_frame [OF rs(3) this]
  from rs(3) have all: "\<And>r. r \<in> set rs \<Longrightarrow> typed_record r"
    by (simp add: list_all_iff)
  define T where
    "T = map (\<lambda>x. case to_datetime x of Returns y \<Rightarrow> y) (map (column_cell ''time'') rs)"
  have s1: "for_each to_datetime (map (column_cell ''time'') rs) = Returns T"
    unfolding T_def by (rule for_each_returns) (simp add: list_all_iff all typed_cells)
  have s2: "\<exists>ys. for_each str_extract (map (column_cell ''place'') rs) = Returns ys"
    by (rule exI, rule for_each_returns) (simp add: list_all_iff all typed_cells)
  have s3: "\<exists>ys. for_each (cut_cell bins labels) (map (column_cell ''magnitude'') rs) = Returns ys"
    for bins labels
    by (rule exI, rule for_each_returns) (simp add: list_all_iff all typed_cells)
  have s4: "\<exists>ys. for_each (cut_cell bins labels) (map (column_cell ''depth_km'') rs) = Returns ys"
    for bins labels
    by (rule exI, rule for_each_returns) (simp add: list_all_iff all typed_cells)
  have s5: "\<exists>ys. for_each hour T = Returns ys"
    unfolding T_def
    by (rule exI, rule for_each_returns) (simp add: list_all_iff all typed_cells)
  have s6: "\<exists>ys. for_each continent_of_row
      (zip (map (column_cell ''latitude'') rs) (map (column_cell ''longitude'') rs)) = Returns ys"
    unfolding zip_map_same
    by (rule exI, rule for_each_returns) (simp add: list_all_iff all typed_cells)
  have s7: "\<exists>ys. for_each float_arithmetic (map (column_cell ''magnitude'') rs) = Returns ys"
    by (rule exI, rule for_each_returns) (simp add: list_all_iff all typed_cells)
  have s8: "\<exists>ys. for_each float_arithmetic (map (column_cell ''depth_km'') rs) = Returns ys"
    by (rule exI, rule for_each_returns) (simp add: list_all_iff all typed_cells)
  from s2 s3 s4 s5 s6 s7 s8 obtain R S D H C E K where
    "for_each str_extract (map (column_cell ''place'') rs) = Returns R"
    "for_each (cut_cell [0, 3, 5, 7, 10] [''leve'', ''moderado'', ''fuerte'', ''grave''])
       (map (column_cell ''magnitude'') rs) = Returns S"
    "for_each (cut_cell [0, 30, 100, 300, 700]
        [''superficial'', ''intermedio'', ''profundo'', ''manto''])
       (map (column_cell ''depth_km'') rs) = Returns D"
    "for_each hour T = Returns H"
    "for_each continent_of_row
      (zip (map (column_cell ''latitude'') rs) (map (column_cell ''longitude'') rs)) = Returns C"
    "for_each float_arithmetic (map (column_cell ''magnitude'') rs) = Returns E"
    "for_each float_arithmetic (map (column_cell ''depth_km'') rs) = Returns K"
    by metis
  moreover have "length T = length features"
    by (simp add: T_def rs(2))
  ultimately show ?thesis
    using lookup_features [OF features] rs(1) frame s1
    by (simp add: process_data_def getcol_def setcol_def len_def del: for_each.simps)
qed

subsection \<open>Empty input\<close>

text \<open>An absent input and an empty dict give the empty table.\<close>

lemma absent_input_gives_empty_table:
  "process_data JNull = Returns [] \<and> process_data (JObj []) = Returns [] \<and> empty []"
  by (simp add: process_data_def empty_def)

text \<open>
  C5. The claim asks for an empty table for a collection with no features. For the
  collection that the survey returns when no event matches, \<open>raw_data\<close> is a dict that is
  not empty, so that the guard \<open>if not raw_data\<close> does not apply; the loop appends nothing,
  \<open>pd.DataFrame([])\<close> has no column, and \<open>df['time']\<close> raises KeyError.
\<close>

theorem empty_feature_list_raises:
  "process_data (JObj [(''type'', JStr ''FeatureCollection''), (''features'', JArr [])]) =
     Raises (KeyError (SKey ''time''))"
  by (simp add: process_data_def DataFrame_def getcol_def)

text \<open>
  C4. The claim asks for as many rows as features. The collection with an empty list of
  features is not null and every feature of it is well formed, and the table should have
  no row: \<open>process_data\<close> returns no table for it.
\<close>

theorem no_table_for_empty_feature_list:
  "\<forall>df. process_data (JObj [(''features'', JArr [])]) \<noteq> Returns df"
  by (simp add: process_data_def DataFrame_def getcol_def)

section \<open>Properties of the writer\<close>

text \<open>Given an empty table, the writer leaves the files as they are and prints that there
  is nothing to save.\<close>

lemma save_to_csv_empty_table:
  "empty df \<Longrightarrow>
   files (save_to_csv data_dir df filename w) = files w
   \<and> console (save_to_csv data_dir df filename w) =
       console w @ [Print ''No hay datos para guardar'']"
  by (simp add: save_to_csv_def)

section \<open>Properties of the fetcher\<close>

text \<open>
  C7, as stated, at two responses. The first has the status 300 and a body that
  \<open>response.json()\<close> parses: the status is not a 2xx one, \<open>raise_for_status\<close> does not raise
  for it, and the fetcher returns the parsed body, not \<open>None\<close>, and prints nothing. The
  second has the status 200 and a JSON body nested so deeply that the parser raises
  \<open>RecursionError\<close>: the fetcher returns no parsed body, and the exception, which is not a
  request exception, leaves it.
\<close>

theorem non_2xx_status_returns_body:
  "fetch_earthquake_data (Response 300 (Inr (JObj [(''features'', JArr [])]))) [] =
     (Inr (JObj [(''features'', JArr [])]), [])
   \<and> fetch_earthquake_data (Response 200 (Inl RecursionError)) [] = (Inl RecursionError, [])"
  by (simp add: fetch_earthquake_data_def request_json_def)

text \<open>
  C7, amended. No request exception leaves the fetcher, whatever the request comes to.
  When \<open>requests.get\<close> raises one (a connection error, a timeout), and when the status is a
  4xx or a 5xx one, the fetcher prints the error and returns \<open>None\<close>. For a response with a
  2xx status, and with any other status that is not a 4xx or a 5xx one, whose body
  \<open>response.json()\<close> parses, it returns the parsed body and prints nothing.
\<close>

theorem fetch_catches_request_errors:
  "(is_request_exception e \<longrightarrow>
      fetch_earthquake_data (Raised e) con =
        (Inr JNull, con @ [PrintError ''Error al obtener datos: '' e]))
   \<and> (400 \<le> status \<and> status < 600 \<longrightarrow>
        fetch_earthquake_data (Response status json_result) con =
          (Inr JNull, con @ [PrintError ''Error al obtener datos: '' (HTTPError status)]))
   \<and> (\<not> (400 \<le> status \<and> status < 600) \<longrightarrow>
        fetch_earthquake_data (Response status (Inr j)) con = (Inr j, con))
   \<and> (\<forall>x. is_request_exception x \<longrightarrow> fst (fetch_earthquake_data out con) \<noteq> Inl x)"
  by (auto simp: fetch_earthquake_data_def request_json_def
      split: http_outcome.splits sum.splits)

theorem fetch_catches_request_errors_witness:
  "fetch_earthquake_data (Raised Timeout) [] =
     (Inr JNull, [PrintError ''Error al obtener datos: '' Timeout])
   \<and> fetch_earthquake_data (Raised ConnectionError) [] =
       (Inr JNull, [PrintError ''Error al obtener datos: '' ConnectionError])
   \<and> fetch_earthquake_data (Response 404 (Inl JSONDecodeError)) [] =
       (Inr JNull, [PrintError ''Error al obtener datos: '' (HTTPError 404)])
   \<and> fetch_earthquake_data (Response 200 (Inr (JObj [(''features'', JArr [])]))) [] =
       (Inr (JObj [(''features'', JArr [])]), [])"
  using fetch_catches_request_errors
      [where e = Timeout and status = 404 and json_result = "Inl JSONDecodeError"
        and con = "[]"]
    fetch_catches_request_errors
      [where e = ConnectionError and status = 200 and con = "[]"
        and j = "JObj [(''features'', JArr [])]"]
  by simp

text \<open>
  An exception of \<open>response.json()\<close> that is not a request exception leaves the fetcher:
  the \<open>ValueError\<close> and the \<open>RecursionError\<close> of the parser. The decoding error of requests
  2.27 and later is a request exception and is caught.
\<close>

lemma parser_error_leaves_fetcher:
  "fetch_earthquake_data (Response 200 (Inl ValueError)) con = (Inl ValueError, con)
   \<and> fetch_earthquake_data (Response 200 (Inl RecursionError)) con = (Inl RecursionError, con)
   \<and> fetch_earthquake_data (Response 200 (Inl JSONDecodeError)) con =
       (Inr JNull, con @ [PrintError ''Error al obtener datos: '' JSONDecodeError])"
  by (simp add: fetch_earthquake_data_def request_json_def)

end
